theory Spec2Isabelle
  imports Main "HOL-Library.Sublist"
begin

section \<open>SeedUp: the command-line entry point (main.py)\<close>

text \<open>
  The entry point parses a command line, calls into two collaborator modules (the
  torrent downloader and the Google Drive uploader) and turns what they return or raise
  into an exit code, console output and log lines. The collaborators, the Colab
  integration library, the file system and the logger are outside the file: they are
  the environment of the model. Every function of main.py becomes a program over a
  world state \<open>'w\<close> that returns what Python returns or raises, the new world and the
  events it produced, in order.
\<close>

subsection \<open>Python values\<close>

text \<open>
  The values the handlers test for truthiness, index and measure: what a collaborator
  hands back is not typed in Python, so it is any of these.
\<close>

datatype pyval =
    PNone
  | PBool bool
  | PInt int
  | PStr string
  | PList "pyval list"
  | PDict "(pyval \<times> pyval) list"

text \<open>Python's truth value testing: None, False, zero and empty containers are falsy.\<close>

fun truthy :: "pyval \<Rightarrow> bool" where
  "truthy PNone = False"
| "truthy (PBool b) = b"
| "truthy (PInt i) = (i \<noteq> 0)"
| "truthy (PStr s) = (s \<noteq> [])"
| "truthy (PList xs) = (xs \<noteq> [])"
| "truthy (PDict kvs) = (kvs \<noteq> [])"

fun type_name :: "pyval \<Rightarrow> string" where
  "type_name PNone = ''NoneType''"
| "type_name (PBool b) = ''bool''"
| "type_name (PInt i) = ''int''"
| "type_name (PStr s) = ''str''"
| "type_name (PList xs) = ''list''"
| "type_name (PDict kvs) = ''dict''"

text \<open>
  An optional command-line string as argparse stores it: None when the option was not
  given, the string otherwise.
\<close>

fun py_opt_str :: "string option \<Rightarrow> pyval" where
  "py_opt_str None = PNone"
| "py_opt_str (Some s) = PStr s"

subsection \<open>Exceptions\<close>

text \<open>
  The classes the source tells apart in its except clauses. \<open>ImportError\<close> is a subclass
  of \<open>Exception\<close>; \<open>Exception m\<close> stands for every other instance of \<open>Exception\<close>;
  \<open>KeyboardInterrupt\<close> and \<open>SystemExit\<close> derive from \<open>BaseException\<close> only, so
  \<open>except Exception\<close> does not catch them. The string is \<open>str(e)\<close>.
\<close>

datatype py_exc =
    ImportError string
  | Exception string
  | KeyboardInterrupt
  | SystemExit

fun is_ImportError :: "py_exc \<Rightarrow> bool" where
  "is_ImportError (ImportError m) = True"
| "is_ImportError e = False"

fun is_Exception :: "py_exc \<Rightarrow> bool" where
  "is_Exception (ImportError m) = True"
| "is_Exception (Exception m) = True"
| "is_Exception KeyboardInterrupt = False"
| "is_Exception SystemExit = False"

fun exc_str :: "py_exc \<Rightarrow> string" where
  "exc_str (ImportError m) = m"
| "exc_str (Exception m) = m"
| "exc_str KeyboardInterrupt = []"
| "exc_str SystemExit = []"

text \<open>A call returns a value (\<open>Inr\<close>) or raises (\<open>Inl\<close>).\<close>

type_synonym 'a result = "py_exc + 'a"

subsection \<open>Events\<close>

text \<open>
  What a run leaves behind, in order: lines printed, log records, and the calls that
  leave main.py together with what each returned or raised. \<open>Enter\<close> marks the entry
  into one of the file's two helpers.
\<close>

datatype helper = EnsureDriveMounted | GetUploader

datatype call =
    ImportColab
  | PathExists string
  | DriveMount string
  | ImportUploader
  | DownloadTorrent string string bool
  | UploadToGoogleDrive pyval pyval bool
  | GetDownloadStatus
  | ClearSession

datatype event =
    Print string
  | LogInfo string
  | LogWarning string
  | LogError string
  | LogErrorExcInfo string
  | Enter helper
  | Call call "pyval result"

fun is_upload_call :: "event \<Rightarrow> bool" where
  "is_upload_call (Call (UploadToGoogleDrive p f s) r) = True"
| "is_upload_call e = False"

fun is_download_call :: "event \<Rightarrow> bool" where
  "is_download_call (Call (DownloadTorrent t d r) res) = True"
| "is_download_call e = False"

subsection \<open>The environment\<close>

text \<open>
  Everything main.py imports or calls. Each call may change the world (a mount makes a
  path appear, a download writes files) and may raise. \<open>os.path.exists\<close> only reads the
  world and answers a boolean. \<open>py_str\<close> is Python's \<open>str()\<close> on a value that is not
  already a string. \<open>encode_error\<close> is standard output's encoding: None for a line it
  can encode, and for a line it cannot the message of the UnicodeEncodeError that
  \<open>print\<close> raises.
\<close>

record 'w env =
  import_colab :: "'w \<Rightarrow> pyval result \<times> 'w"
  path_exists :: "string \<Rightarrow> 'w \<Rightarrow> bool"
  drive_mount :: "string \<Rightarrow> 'w \<Rightarrow> pyval result \<times> 'w"
  import_uploader :: "'w \<Rightarrow> pyval result \<times> 'w"
  upload_to_google_drive :: "pyval \<Rightarrow> pyval \<Rightarrow> bool \<Rightarrow> 'w \<Rightarrow> pyval result \<times> 'w"
  download_torrent :: "string \<Rightarrow> string \<Rightarrow> bool \<Rightarrow> 'w \<Rightarrow> pyval result \<times> 'w"
  get_download_status :: "'w \<Rightarrow> pyval result \<times> 'w"
  clear_session :: "'w \<Rightarrow> pyval result \<times> 'w"
  py_str :: "pyval \<Rightarrow> string"
  encode_error :: "string \<Rightarrow> string option"

subsection \<open>Programs\<close>

type_synonym ('w, 'a) prog = "'w \<Rightarrow> 'a result \<times> 'w \<times> event list"

definition ret :: "'a \<Rightarrow> ('w, 'a) prog" where
  "ret v w = (Inr v, w, [])"

definition raise :: "py_exc \<Rightarrow> ('w, 'a) prog" where
  "raise e w = (Inl e, w, [])"

definition emit :: "event \<Rightarrow> ('w, unit) prog" where
  "emit ev w = (Inr (), w, [ev])"

text \<open>A call that leaves the file: it is recorded with its outcome.\<close>

definition ext :: "call \<Rightarrow> ('w \<Rightarrow> pyval result \<times> 'w) \<Rightarrow> ('w, pyval) prog" where
  "ext c f w = (case f w of (r, w') \<Rightarrow> (r, w', [Call c r]))"

definition query :: "call \<Rightarrow> ('w \<Rightarrow> bool) \<Rightarrow> ('w, bool) prog" where
  "query c f w = (Inr (f w), w, [Call c (Inr (PBool (f w)))])"

text \<open>Sequencing: a raise ends the sequence, as it ends the block in Python.\<close>

definition bind :: "('w, 'a) prog \<Rightarrow> ('a \<Rightarrow> ('w, 'b) prog) \<Rightarrow> ('w, 'b) prog" where
  "bind m f w =
     (case m w of
        (Inl e, w', t) \<Rightarrow> (Inl e, w', t)
      | (Inr v, w', t) \<Rightarrow> (case f v w' of (r, w'', t') \<Rightarrow> (r, w'', t @ t')))"

definition seq :: "('w, 'a) prog \<Rightarrow> ('w, 'b) prog \<Rightarrow> ('w, 'b) prog" where
  "seq m n = bind m (\<lambda>_. n)"

text \<open>
  \<open>try: body except ...\<close>: the clauses are a function that gives the handler of an
  exception, or None when no clause matches and the exception goes on.
\<close>

definition try_except ::
  "('w, 'a) prog \<Rightarrow> (py_exc \<Rightarrow> ('w, 'a) prog option) \<Rightarrow> ('w, 'a) prog" where
  "try_except body clauses w =
     (case body w of
        (Inr v, w', t) \<Rightarrow> (Inr v, w', t)
      | (Inl e, w', t) \<Rightarrow>
          (case clauses e of
             None \<Rightarrow> (Inl e, w', t)
           | Some h \<Rightarrow> (case h w' of (r, w'', t') \<Rightarrow> (r, w'', t @ t'))))"

text \<open>
  \<open>print\<close> of a line that holds characters outside ASCII (the marks of the status and
  clear messages). The line is encoded whole before anything is written: on a standard
  output whose encoding lacks a character, \<open>print\<close> raises UnicodeEncodeError, an
  instance of \<open>Exception\<close>, and nothing is printed. The other lines main.py prints are
  ASCII literals, which every encoding of standard output takes; they are plain
  \<open>Print\<close> events.
\<close>

definition print_text :: "'w env \<Rightarrow> string \<Rightarrow> ('w, unit) prog" where
  "print_text env s =
     (case encode_error env s of
        None \<Rightarrow> emit (Print s)
      | Some m \<Rightarrow> raise (Exception m))"

definition outcome :: "'a result \<times> 'w \<times> event list \<Rightarrow> 'a result" where
  "outcome x = fst x"

definition final :: "'a result \<times> 'w \<times> event list \<Rightarrow> 'w" where
  "final x = fst (snd x)"

definition trace :: "'a result \<times> 'w \<times> event list \<Rightarrow> event list" where
  "trace x = snd (snd x)"

subsection \<open>Strings the source builds\<close>

definition rule60 :: string where
  "rule60 = replicate 60 (CHR ''='')"

definition newline :: string where
  "newline = [CHR 0x0A]"

definition quoted :: "string \<Rightarrow> string" where
  "quoted s = CHR 0x27 # s @ [CHR 0x27]"

text \<open>The check mark and the ballot cross of the status messages, as UTF-8.\<close>

definition check_mark :: string where
  "check_mark = [CHR 0xE2, CHR 0x9C, CHR 0x93]"

definition ballot_x :: string where
  "ballot_x = [CHR 0xE2, CHR 0x9C, CHR 0x97]"

function str_of_nat :: "nat \<Rightarrow> string" where
  "str_of_nat n =
     (if n < 10 then [char_of (48 + n)]
      else str_of_nat (n div 10) @ [char_of (48 + n mod 10)])"
  by pat_completeness auto
termination
  by (relation "measure id") auto

declare str_of_nat.simps [simp del]

text \<open>An f-string field: a string is inserted as it is, another value through \<open>str()\<close>.\<close>

definition py_format :: "'w env \<Rightarrow> pyval \<Rightarrow> string" where
  "py_format env v = (case v of PStr s \<Rightarrow> s | _ \<Rightarrow> py_str env v)"

subsection \<open>Operations on the upload result\<close>

text \<open>
  \<open>results.get('failed')\<close>: on a dict the entry, or None without one; any other value
  has no \<open>get\<close> and the attribute access raises AttributeError.
\<close>

definition results_get_failed :: "pyval \<Rightarrow> pyval result" where
  "results_get_failed results =
     (case results of
        PDict kvs \<Rightarrow>
          Inr (case map_of kvs (PStr ''failed'') of None \<Rightarrow> PNone | Some v \<Rightarrow> v)
      | _ \<Rightarrow>
          Inl (Exception (quoted (type_name results) @ '' object has no attribute ''
                 @ quoted ''get'')))"

text \<open>\<open>len(x)\<close>: defined on strings, lists and dicts; a TypeError on the rest.\<close>

definition py_len :: "pyval \<Rightarrow> nat result" where
  "py_len v =
     (case v of
        PStr s \<Rightarrow> Inr (length s)
      | PList xs \<Rightarrow> Inr (length xs)
      | PDict kvs \<Rightarrow> Inr (length (remdups (map fst kvs)))
      | _ \<Rightarrow> Inl (Exception (''object of type '' @ quoted (type_name v) @ '' has no len()'')))"

subsection \<open>The parsed command line\<close>

text \<open>
  The namespace \<open>parse_arguments\<close> returns. \<open>command\<close> is None when no subcommand was
  given; \<open>folder_id\<close> is None when \<open>--folder-id\<close> was not given; the flags are False
  unless given. A handler reads only the attributes of its own subcommand.
\<close>

record args =
  command :: "string option"
  torrent :: string
  destination :: string
  no_resume :: bool
  upload :: bool
  folder_id :: "string option"
  no_skip :: bool
  path :: string

subsection \<open>The helpers\<close>

text \<open>
  \<open>ensure_drive_mounted\<close>: the import of the Colab library, the test for the mount
  point and the mount are inside one try block whose only clause is
  \<open>except ImportError: pass\<close>.
\<close>

definition ensure_drive_mounted :: "'w env \<Rightarrow> ('w, unit) prog" where
  "ensure_drive_mounted env =
     seq (emit (Enter EnsureDriveMounted))
       (try_except
          (seq (ext ImportColab (import_colab env))
             (bind (query (PathExists ''/content/drive/MyDrive'')
                      (path_exists env ''/content/drive/MyDrive''))
                (\<lambda>mounted.
                   if \<not> mounted then
                     seq (emit (Print ''Mounting Google Drive...''))
                       (seq (ext (DriveMount ''/content/drive'')
                               (drive_mount env ''/content/drive''))
                          (ret ()))
                   else ret ())))
          (\<lambda>e. if is_ImportError e then Some (ret ()) else None))"

text \<open>
  \<open>get_uploader\<close>: the import of the uploader; an ImportError is logged, explained on
  the console and raised again. On success the caller holds the environment's
  \<open>upload_to_google_drive\<close>.
\<close>

definition get_uploader :: "'w env \<Rightarrow> ('w, unit) prog" where
  "get_uploader env =
     seq (emit (Enter GetUploader))
       (try_except
          (seq (ext ImportUploader (import_uploader env)) (ret ()))
          (\<lambda>e. if is_ImportError e then
                  Some (seq (emit (LogError (''Failed to import uploader: '' @ exc_str e)))
                       (seq (emit (Print (newline @ rule60)))
                       (seq (emit (Print ''ERROR: Failed to import Google Drive uploader''))
                       (seq (emit (Print rule60))
                       (seq (emit (Print ''Please install required packages:''))
                       (seq (emit (Print ''  pip install google-auth-oauthlib google-auth-httplib2 google-api-python-client''))
                       (seq (emit (Print rule60))
                          (raise e))))))))
                else None))"

text \<open>
  The test both handlers make on what the uploader returned:
  \<open>if results.get('failed'): logger.warning(...); return 1\<close>. The answer is True when
  the handler returns 1 there and False when it goes on. \<open>results['failed']\<close> is the
  entry \<open>get\<close> has just returned: it was truthy, so the key is there.
\<close>

definition check_failed :: "pyval \<Rightarrow> ('w, bool) prog" where
  "check_failed results =
     (case results_get_failed results of
        Inl e \<Rightarrow> raise e
      | Inr failed \<Rightarrow>
          if truthy failed then
            (case py_len failed of
               Inl e \<Rightarrow> raise e
             | Inr n \<Rightarrow>
                 seq (emit (LogWarning (''Some files failed ('' @ str_of_nat n @ '')'')))
                   (ret True))
          else ret False)"

text \<open>
  The statements both try blocks open with (lines 134 to 144 of \<open>handle_download\<close>,
  170 to 180 of \<open>handle_upload\<close>): get the uploader, call it with the path, the folder
  identifier and \<open>skip_existing\<close>, and test what it returned.
\<close>

definition upload_attempt :: "'w env \<Rightarrow> pyval \<Rightarrow> pyval \<Rightarrow> bool \<Rightarrow> ('w, bool) prog" where
  "upload_attempt env p f skip_existing =
     seq (get_uploader env)
       (bind (ext (UploadToGoogleDrive p f skip_existing)
                (upload_to_google_drive env p f skip_existing))
          check_failed)"

subsection \<open>The handlers\<close>

text \<open>
  The block under \<open>if args.upload:\<close> in \<open>handle_download\<close>, with the \<open>return 0\<close> that
  follows it. The try block yields \<open>Some 1\<close> where the source returns 1 inside it and
  None where it falls through to the final \<open>return 0\<close>.
\<close>

definition upload_downloaded :: "'w env \<Rightarrow> args \<Rightarrow> pyval \<Rightarrow> ('w, int) prog" where
  "upload_downloaded env a downloaded_path =
     seq (ensure_drive_mounted env)
    (seq (emit (Print (newline @ rule60)))
    (seq (emit (Print ''UPLOADING TO GOOGLE DRIVE''))
    (seq (emit (Print rule60))
    (bind
       (try_except
          (bind (upload_attempt env downloaded_path (py_opt_str (folder_id a))
                   (\<not> no_skip a))
             (\<lambda>failed.
                if failed then ret (Some 1)
                else seq (emit (LogInfo ''Upload completed successfully!'')) (ret None)))
          (\<lambda>e. if is_Exception e then
                  Some (seq (emit (LogError (''Upload failed: '' @ exc_str e)))
                          (ret (Some 1)))
                else None))
       (\<lambda>returned. case returned of Some code \<Rightarrow> ret code | None \<Rightarrow> ret 0)))))"

definition handle_download :: "'w env \<Rightarrow> args \<Rightarrow> ('w, int) prog" where
  "handle_download env a =
     seq (emit (Print rule60))
    (seq (emit (Print ''TORRENT DOWNLOADER''))
    (seq (emit (Print rule60))
    (seq (if prefix ''/content/drive'' (destination a)
          then ensure_drive_mounted env else ret ())
    (if upload a \<and> \<not> truthy (py_opt_str (folder_id a)) then
       seq (emit (LogError ''--folder-id is required when using --upload'')) (ret 1)
     else
       seq (emit (LogInfo (''Starting download: '' @ torrent a)))
      (bind (ext (DownloadTorrent (torrent a) (destination a) (\<not> no_resume a))
               (download_torrent env (torrent a) (destination a) (\<not> no_resume a)))
         (\<lambda>downloaded_path.
            if \<not> truthy downloaded_path then
              seq (emit (LogError ''Download failed or cancelled'')) (ret 1)
            else
              seq (emit (LogInfo (''Download completed: '' @ py_format env downloaded_path)))
                (if upload a then upload_downloaded env a downloaded_path
                 else ret 0)))))))"

text \<open>
  The try statement that ends \<open>handle_upload\<close> (lines 169 to 187), from the three
  arguments it passes to the uploader.
\<close>

definition try_upload :: "'w env \<Rightarrow> pyval \<Rightarrow> pyval \<Rightarrow> bool \<Rightarrow> ('w, int) prog" where
  "try_upload env p f skip_existing =
     try_except
       (bind (upload_attempt env p f skip_existing)
          (\<lambda>failed.
             if failed then ret 1
             else seq (emit (LogInfo ''Upload completed successfully!'')) (ret 0)))
       (\<lambda>e. if is_Exception e then
               Some (seq (emit (LogError (''Upload failed: '' @ exc_str e))) (ret 1))
             else None)"

definition handle_upload :: "'w env \<Rightarrow> args \<Rightarrow> ('w, int) prog" where
  "handle_upload env a =
     seq (emit (Print rule60))
    (seq (emit (Print ''GOOGLE DRIVE UPLOADER''))
    (seq (emit (Print rule60))
    (seq (ensure_drive_mounted env)
    (bind (query (PathExists (path a)) (path_exists env (path a)))
       (\<lambda>found.
          if \<not> found then
            seq (emit (LogError (''Path does not exist: '' @ path a))) (ret 1)
          else
            try_upload env (PStr (path a)) (py_opt_str (folder_id a)) (\<not> no_skip a))))))"

definition handle_status :: "'w env \<Rightarrow> args \<Rightarrow> ('w, int) prog" where
  "handle_status env a =
     bind (ext GetDownloadStatus (get_download_status env))
       (\<lambda>paused.
          seq (if truthy paused
               then print_text env (check_mark @ '' Found paused download session'')
               else print_text env (ballot_x @ '' No paused download session found''))
            (ret 0))"

definition handle_clear :: "'w env \<Rightarrow> args \<Rightarrow> ('w, int) prog" where
  "handle_clear env a =
     bind (ext ClearSession (clear_session env))
       (\<lambda>cleared.
          if truthy cleared then
            seq (print_text env (check_mark @ '' Download session cleared'')) (ret 0)
          else
            seq (print_text env (ballot_x @ '' Failed to clear session'')) (ret 1))"

subsection \<open>The dispatcher\<close>

text \<open>The if/elif chain on the command name inside \<open>main\<close>'s try block.\<close>

definition dispatch :: "'w env \<Rightarrow> args \<Rightarrow> string \<Rightarrow> ('w, int) prog" where
  "dispatch env a c =
     (if c = ''download'' then handle_download env a
      else if c = ''upload'' then handle_upload env a
      else if c = ''status'' then handle_status env a
      else if c = ''clear'' then handle_clear env a
      else seq (emit (LogError (''Unknown command: '' @ c))) (ret 1))"

text \<open>
  \<open>main\<close>, from the namespace \<open>parse_arguments\<close> returned. The try block has two
  clauses, \<open>except KeyboardInterrupt\<close> and \<open>except Exception\<close>; an exception of neither
  class leaves \<open>main\<close>.
\<close>

definition main :: "'w env \<Rightarrow> args \<Rightarrow> ('w, int) prog" where
  "main env a =
     (case command a of
        None \<Rightarrow> seq (emit (Print (''Error: No command specified'' @ newline))) (ret 1)
      | Some c \<Rightarrow>
          if c = [] then
            seq (emit (Print (''Error: No command specified'' @ newline))) (ret 1)
          else
            try_except (dispatch env a c)
              (\<lambda>e. if e = KeyboardInterrupt then
                      Some (seq (emit (Print (newline @ ''Operation cancelled by user'')))
                              (ret 130))
                    else if is_Exception e then
                      Some (seq (emit (LogErrorExcInfo (''Operation failed: '' @ exc_str e)))
                              (ret 1))
                    else None))"

subsection \<open>A concrete host\<close>

text \<open>
  A small world to run the handlers in: the list of the paths that exist. The host is
  not a Colab notebook (the import of the Colab library fails), the uploader is
  installed and uploads everything, the downloader writes one file, no session is
  paused, clearing succeeds and standard output is UTF-8.
\<close>

definition plain_host :: "string list env" where
  "plain_host =
     \<lparr> import_colab = (\<lambda>w. (Inl (ImportError ''No module named google.colab''), w)),
       path_exists = (\<lambda>p w. p \<in> set w),
       drive_mount = (\<lambda>p w. (Inr PNone, (p @ ''/MyDrive'') # w)),
       import_uploader = (\<lambda>w. (Inr PNone, w)),
       upload_to_google_drive =
         (\<lambda>p f s w. (Inr (PDict [(PStr ''uploaded'', PList [p]), (PStr ''failed'', PList [])]), w)),
       download_torrent =
         (\<lambda>t d r w. (Inr (PStr (d @ ''/file.iso'')), (d @ ''/file.iso'') # w)),
       get_download_status = (\<lambda>w. (Inr (PBool False), w)),
       clear_session = (\<lambda>w. (Inr (PBool True), w)),
       py_str = type_name,
       encode_error = (\<lambda>s. None) \<rparr>"

text \<open>The same host inside a Colab notebook: the library imports and the mount works.\<close>

definition colab_host :: "string list env" where
  "colab_host = plain_host \<lparr> import_colab := (\<lambda>w. (Inr PNone, w)) \<rparr>"

text \<open>A notebook where mounting the Drive fails: \<open>drive.mount\<close> raises.\<close>

definition mount_fails_host :: "string list env" where
  "mount_fails_host =
     colab_host \<lparr> drive_mount := (\<lambda>p w. (Inl (Exception ''mount failed''), w)) \<rparr>"

text \<open>
  The plain host with an ASCII standard output: the check mark (U+2713) and the ballot
  cross (U+2717) cannot be encoded.
\<close>

definition ascii_codec_error :: "string \<Rightarrow> string" where
  "ascii_codec_error code_point =
     quoted ''ascii'' @ '' codec can'' @ [CHR 0x27] @ ''t encode character ''
     @ quoted (CHR 0x5C # CHR ''u'' # code_point)
     @ '' in position 0: ordinal not in range(128)''"

definition ascii_host :: "string list env" where
  "ascii_host =
     plain_host \<lparr> encode_error :=
       (\<lambda>s. if prefix check_mark s then Some (ascii_codec_error ''2713'')
            else if prefix ballot_x s then Some (ascii_codec_error ''2717'')
            else None) \<rparr>"

text \<open>Hosts whose collaborators fail in one way each.\<close>

definition failing_download_host :: "string list env" where
  "failing_download_host = plain_host \<lparr> download_torrent := (\<lambda>t d r w. (Inr PNone, w)) \<rparr>"

definition partial_upload_host :: "string list env" where
  "partial_upload_host =
     plain_host \<lparr> upload_to_google_drive :=
       (\<lambda>p f s w. (Inr (PDict [(PStr ''uploaded'', PList [PStr ''a'', PStr ''b'']),
                               (PStr ''failed'', PList [PStr ''c''])]), w)) \<rparr>"

definition bare_result_host :: "string list env" where
  "bare_result_host =
     plain_host \<lparr> upload_to_google_drive :=
       (\<lambda>p f s w. (Inr (PDict [(PStr ''uploaded'', PList [p])]), w)) \<rparr>"

definition broken_upload_host :: "string list env" where
  "broken_upload_host =
     plain_host \<lparr> upload_to_google_drive :=
       (\<lambda>p f s w. (Inl (Exception ''quota exceeded''), w)) \<rparr>"

definition interrupted_upload_host :: "string list env" where
  "interrupted_upload_host =
     plain_host \<lparr> upload_to_google_drive := (\<lambda>p f s w. (Inl KeyboardInterrupt, w)) \<rparr>"

definition interrupted_download_host :: "string list env" where
  "interrupted_download_host =
     plain_host \<lparr> download_torrent := (\<lambda>t d r w. (Inl KeyboardInterrupt, w)) \<rparr>"

definition exiting_clear_host :: "string list env" where
  "exiting_clear_host = plain_host \<lparr> clear_session := (\<lambda>w. (Inl SystemExit, w)) \<rparr>"

text \<open>Command lines.\<close>

definition download_cmd :: args where
  "download_cmd =
     \<lparr> command = Some ''download'', torrent = ''magnet:?xt=abc'', destination = ''/tmp/out'',
       no_resume = False, upload = False, folder_id = None, no_skip = False, path = [] \<rparr>"

definition download_upload_cmd :: args where
  "download_upload_cmd = download_cmd \<lparr> upload := True, folder_id := Some ''abc123'' \<rparr>"

definition drive_download_cmd :: args where
  "drive_download_cmd =
     download_cmd \<lparr> destination := ''/content/drive/MyDrive/x'', upload := True \<rparr>"

definition upload_cmd :: args where
  "upload_cmd =
     \<lparr> command = Some ''upload'', torrent = [], destination = [],
       no_resume = False, upload = False, folder_id = Some ''abc123'', no_skip = False,
       path = ''/data/file.iso'' \<rparr>"

definition drive_upload_cmd :: args where
  "drive_upload_cmd = upload_cmd \<lparr> path := ''/content/drive/MyDrive'' \<rparr>"

definition status_cmd :: args where
  "status_cmd = upload_cmd \<lparr> command := Some ''status'' \<rparr>"

definition clear_cmd :: args where
  "clear_cmd = upload_cmd \<lparr> command := Some ''clear'' \<rparr>"

section \<open>Running the model\<close>

text \<open>
  A run is read through its three parts. The equations below say what each combinator
  does to them; with these a program is executed symbolically, one statement at a time.
\<close>

lemma ret_run [simp]: "outcome (ret v w) = Inr v" "final (ret v w) = w" "trace (ret v w) = []"
  by (simp_all add: ret_def outcome_def final_def trace_def)

lemma raise_run [simp]: "outcome (raise e w) = Inl e" "final (raise e w) = w" "trace (raise e w) = []"
  by (simp_all add: raise_def outcome_def final_def trace_def)

lemma emit_run [simp]: "outcome (emit ev w) = Inr ()" "final (emit ev w) = w" "trace (emit ev w) = [ev]"
  by (simp_all add: emit_def outcome_def final_def trace_def)

lemma ext_run [simp]:
  "outcome (ext c f w) = fst (f w)" "final (ext c f w) = snd (f w)"
  "trace (ext c f w) = [Call c (fst (f w))]"
  by (simp_all add: ext_def outcome_def final_def trace_def split: prod.splits)

lemma query_run [simp]:
  "outcome (query c f w) = Inr (f w)" "final (query c f w) = w"
  "trace (query c f w) = [Call c (Inr (PBool (f w)))]"
  by (simp_all add: query_def outcome_def final_def trace_def)

lemma print_text_run:
  "outcome (print_text env s w) =
     (case encode_error env s of None \<Rightarrow> Inr () | Some m \<Rightarrow> Inl (Exception m))"
  "final (print_text env s w) = w"
  "trace (print_text env s w) =
     (case encode_error env s of None \<Rightarrow> [Print s] | Some m \<Rightarrow> [])"
  by (simp_all add: print_text_def split: option.splits)

lemma bind_run:
  "outcome (bind m f w) =
     (case outcome (m w) of Inl e \<Rightarrow> Inl e | Inr v \<Rightarrow> outcome (f v (final (m w))))"
  "final (bind m f w) =
     (case outcome (m w) of Inl e \<Rightarrow> final (m w) | Inr v \<Rightarrow> final (f v (final (m w))))"
  "trace (bind m f w) =
     (case outcome (m w) of Inl e \<Rightarrow> trace (m w)
      | Inr v \<Rightarrow> trace (m w) @ trace (f v (final (m w))))"
  by (simp_all add: bind_def outcome_def final_def trace_def split: prod.splits sum.splits)

lemma seq_run:
  "outcome (seq m n w) =
     (case outcome (m w) of Inl e \<Rightarrow> Inl e | Inr v \<Rightarrow> outcome (n (final (m w))))"
  "final (seq m n w) =
     (case outcome (m w) of Inl e \<Rightarrow> final (m w) | Inr v \<Rightarrow> final (n (final (m w))))"
  "trace (seq m n w) =
     (case outcome (m w) of Inl e \<Rightarrow> trace (m w)
      | Inr v \<Rightarrow> trace (m w) @ trace (n (final (m w))))"
  by (simp_all add: seq_def bind_run)

lemma try_except_run:
  "outcome (try_except m h w) =
     (case outcome (m w) of Inr v \<Rightarrow> Inr v
      | Inl e \<Rightarrow> (case h e of None \<Rightarrow> Inl e | Some k \<Rightarrow> outcome (k (final (m w)))))"
  "final (try_except m h w) =
     (case outcome (m w) of Inr v \<Rightarrow> final (m w)
      | Inl e \<Rightarrow> (case h e of None \<Rightarrow> final (m w) | Some k \<Rightarrow> final (k (final (m w)))))"
  "trace (try_except m h w) =
     (case outcome (m w) of Inr v \<Rightarrow> trace (m w)
      | Inl e \<Rightarrow> (case h e of None \<Rightarrow> trace (m w)
                  | Some k \<Rightarrow> trace (m w) @ trace (k (final (m w)))))"
  by (simp_all add: try_except_def outcome_def final_def trace_def
        split: prod.splits sum.splits option.splits)

lemmas run_simps = bind_run seq_run try_except_run

lemma run_eqI: "outcome x = outcome y \<Longrightarrow> final x = final y \<Longrightarrow> trace x = trace y \<Longrightarrow> x = y"
  by (cases x, cases y) (simp add: outcome_def final_def trace_def)

subsection \<open>The helpers\<close>

text \<open>
  \<open>ensure_drive_mounted\<close> announces itself, touches nothing but the Colab library, the
  mount point and the mount, and lets through whatever is not an ImportError.
\<close>

lemma mount_events:
  "ev \<in> set (trace (ensure_drive_mounted env w)) \<Longrightarrow>
   ev = Enter EnsureDriveMounted \<or> ev = Print ''Mounting Google Drive...''
   \<or> (\<exists>r. ev = Call ImportColab r)
   \<or> (\<exists>r. ev = Call (PathExists ''/content/drive/MyDrive'') r)
   \<or> (\<exists>r. ev = Call (DriveMount ''/content/drive'') r)"
  by (auto simp: ensure_drive_mounted_def run_simps split: sum.splits if_splits)

lemma mount_no_upload [simp]:
  "Call (UploadToGoogleDrive p f s) r \<notin> set (trace (ensure_drive_mounted env w))"
  using mount_events[of "Call (UploadToGoogleDrive p f s) r" env w] by auto

lemma mount_no_download [simp]:
  "Call (DownloadTorrent t d b) r \<notin> set (trace (ensure_drive_mounted env w))"
  using mount_events[of "Call (DownloadTorrent t d b) r" env w] by auto

lemma mount_no_import_uploader [simp]:
  "Call ImportUploader r \<notin> set (trace (ensure_drive_mounted env w))"
  using mount_events[of "Call ImportUploader r" env w] by auto


lemma mount_no_swallow:
  "Call c (Inl e) \<in> set (trace (ensure_drive_mounted env w)) \<Longrightarrow> \<not> is_Exception e \<Longrightarrow>
   outcome (ensure_drive_mounted env w) = Inl e"
  by (cases e) (auto simp: ensure_drive_mounted_def run_simps split: sum.splits if_splits)

lemma mount_first_no_collab [simp]:
  "Call (DownloadTorrent t d b) r \<notin> set (trace ((if c then ensure_drive_mounted env else ret ()) w))"
  "Call (UploadToGoogleDrive p f s) r \<notin> set (trace ((if c then ensure_drive_mounted env else ret ()) w))"
  "Call ImportUploader r \<notin> set (trace ((if c then ensure_drive_mounted env else ret ()) w))"
  by auto

lemma mount_first_events:
  "ev \<in> set (trace ((if c then ensure_drive_mounted env else ret ()) w)) \<Longrightarrow>
   \<not> is_download_call ev \<and> \<not> is_upload_call ev"
  by (auto dest!: mount_events split: if_splits)

text \<open>
  \<open>get_uploader\<close> raises whatever the import raised: the ImportError clause ends in
  \<open>raise\<close>.
\<close>

lemma get_uploader_events:
  "ev \<in> set (trace (get_uploader env w)) \<Longrightarrow>
   ev = Enter GetUploader \<or> (\<exists>r. ev = Call ImportUploader r)
   \<or> (\<exists>m. ev = Print m) \<or> (\<exists>m. ev = LogError m)"
  by (auto simp: get_uploader_def run_simps split: sum.splits if_splits)

lemma get_uploader_no_upload [simp]:
  "Call (UploadToGoogleDrive p f s) r \<notin> set (trace (get_uploader env w))"
  using get_uploader_events[of "Call (UploadToGoogleDrive p f s) r" env w] by auto

lemma get_uploader_no_download [simp]:
  "Call (DownloadTorrent t d b) r \<notin> set (trace (get_uploader env w))"
  using get_uploader_events[of "Call (DownloadTorrent t d b) r" env w] by auto

lemma get_uploader_raises:
  "Call c (Inl e) \<in> set (trace (get_uploader env w)) \<Longrightarrow> outcome (get_uploader env w) = Inl e"
  by (auto simp: get_uploader_def run_simps split: sum.splits if_splits)

text \<open>
  The test on the result: a non-empty list under \<open>'failed'\<close> is counted and reported, a
  missing or falsy entry lets the handler go on.
\<close>

lemma check_failed_no_call [simp]:
  "Call c r \<notin> set (trace (check_failed results w))"
  by (auto simp: check_failed_def run_simps split: sum.splits if_splits)

lemma check_failed_list:
  "map_of kvs (PStr ''failed'') = Some (PList xs) \<Longrightarrow> xs \<noteq> [] \<Longrightarrow>
   outcome (check_failed (PDict kvs) w) = Inr True \<and>
   trace (check_failed (PDict kvs) w) =
     [LogWarning (''Some files failed ('' @ str_of_nat (length xs) @ '')'')]"
  by (simp add: check_failed_def results_get_failed_def py_len_def run_simps)

lemma check_failed_falsy:
  "(case map_of kvs (PStr ''failed'') of None \<Rightarrow> True | Some v \<Rightarrow> \<not> truthy v) \<Longrightarrow>
   outcome (check_failed (PDict kvs) w) = Inr False \<and> trace (check_failed (PDict kvs) w) = []"
  by (simp add: check_failed_def results_get_failed_def split: option.splits)

subsection \<open>The upload attempt and the try statement around it\<close>

lemma upload_attempt_run:
  "outcome (upload_attempt env p f sk w) =
     (case outcome (get_uploader env w) of
        Inl e \<Rightarrow> Inl e
      | Inr u \<Rightarrow>
         (case fst (upload_to_google_drive env p f sk (final (get_uploader env w))) of
            Inl e \<Rightarrow> Inl e
          | Inr res \<Rightarrow> outcome (check_failed res
               (snd (upload_to_google_drive env p f sk (final (get_uploader env w)))))))"
  "trace (upload_attempt env p f sk w) =
     trace (get_uploader env w) @
     (case outcome (get_uploader env w) of
        Inl e \<Rightarrow> []
      | Inr u \<Rightarrow>
         Call (UploadToGoogleDrive p f sk)
           (fst (upload_to_google_drive env p f sk (final (get_uploader env w)))) #
         (case fst (upload_to_google_drive env p f sk (final (get_uploader env w))) of
            Inl e \<Rightarrow> []
          | Inr res \<Rightarrow> trace (check_failed res
               (snd (upload_to_google_drive env p f sk (final (get_uploader env w)))))))"
  by (simp_all add: upload_attempt_def run_simps split: sum.splits)

lemma upload_attempt_upload_call:
  assumes "Call (UploadToGoogleDrive p' f' s') r \<in> set (trace (upload_attempt env p f sk w))"
  shows "p' = p \<and> f' = f \<and> s' = sk
     \<and> outcome (upload_attempt env p f sk w) =
         (case r of Inl e \<Rightarrow> Inl e
          | Inr res \<Rightarrow> outcome (check_failed res
               (snd (upload_to_google_drive env p f sk (final (get_uploader env w))))))
     \<and> (\<exists>pre. trace (upload_attempt env p f sk w) =
           pre @ Call (UploadToGoogleDrive p f sk) r #
           (case r of Inl e \<Rightarrow> []
            | Inr res \<Rightarrow> trace (check_failed res
               (snd (upload_to_google_drive env p f sk (final (get_uploader env w)))))))"
  using assms by (auto simp: upload_attempt_run split: sum.splits)

lemma upload_attempt_import_raised:
  assumes "Call ImportUploader (Inl e) \<in> set (trace (upload_attempt env p f sk w))"
  shows "outcome (upload_attempt env p f sk w) = Inl e"
  using assms get_uploader_raises[of ImportUploader e env w]
  by (auto simp: upload_attempt_run split: sum.splits)

lemma upload_attempt_no_download [simp]:
  "Call (DownloadTorrent t d b) r \<notin> set (trace (upload_attempt env p f sk w))"
  by (auto simp: upload_attempt_run split: sum.splits)

lemma try_upload_run:
  "outcome (try_upload env p f sk w) =
     (case outcome (upload_attempt env p f sk w) of
        Inr failed \<Rightarrow> Inr (if failed then 1 else 0)
      | Inl e \<Rightarrow> if is_Exception e then Inr 1 else Inl e)"
  "trace (try_upload env p f sk w) =
     trace (upload_attempt env p f sk w) @
     (case outcome (upload_attempt env p f sk w) of
        Inr failed \<Rightarrow> if failed then [] else [LogInfo ''Upload completed successfully!'']
      | Inl e \<Rightarrow> if is_Exception e then [LogError (''Upload failed: '' @ exc_str e)] else [])"
  by (simp_all add: try_upload_def run_simps split: sum.splits)

text \<open>
  The upload block of \<open>handle_download\<close> runs the same try statement as
  \<open>handle_upload\<close>: returning 0 after the try block is returning 0 at its end.
\<close>

lemma upload_downloaded_eq:
  "upload_downloaded env a v w =
     seq (ensure_drive_mounted env)
    (seq (emit (Print (newline @ rule60)))
    (seq (emit (Print ''UPLOADING TO GOOGLE DRIVE''))
    (seq (emit (Print rule60))
       (try_upload env v (py_opt_str (folder_id a)) (\<not> no_skip a))))) w"
proof (rule run_eqI)
  show "outcome (upload_downloaded env a v w) = outcome (seq (ensure_drive_mounted env)
    (seq (emit (Print (newline @ rule60)))
    (seq (emit (Print ''UPLOADING TO GOOGLE DRIVE''))
    (seq (emit (Print rule60))
       (try_upload env v (py_opt_str (folder_id a)) (\<not> no_skip a))))) w)"
    by (simp add: upload_downloaded_def try_upload_def run_simps split: sum.splits)
  show "final (upload_downloaded env a v w) = final (seq (ensure_drive_mounted env)
    (seq (emit (Print (newline @ rule60)))
    (seq (emit (Print ''UPLOADING TO GOOGLE DRIVE''))
    (seq (emit (Print rule60))
       (try_upload env v (py_opt_str (folder_id a)) (\<not> no_skip a))))) w)"
    by (simp add: upload_downloaded_def try_upload_def run_simps split: sum.splits)
  show "trace (upload_downloaded env a v w) = trace (seq (ensure_drive_mounted env)
    (seq (emit (Print (newline @ rule60)))
    (seq (emit (Print ''UPLOADING TO GOOGLE DRIVE''))
    (seq (emit (Print rule60))
       (try_upload env v (py_opt_str (folder_id a)) (\<not> no_skip a))))) w)"
    by (simp add: upload_downloaded_def try_upload_def run_simps split: sum.splits)
qed

lemma try_upload_no_download [simp]:
  "Call (DownloadTorrent t d b) r \<notin> set (trace (try_upload env p f sk w))"
  by (auto simp: try_upload_run split: sum.splits if_splits)

lemma try_upload_uploader_event:
  assumes "ev \<in> set (trace (try_upload env p f sk w))"
    and "is_upload_call ev \<or> (\<exists>r. ev = Call ImportUploader r)"
  shows "ev \<in> set (trace (upload_attempt env p f sk w))"
  using assms by (auto simp: try_upload_run split: sum.splits if_splits)

lemma try_upload_upload_returned:
  assumes "Call (UploadToGoogleDrive p' f' s') (Inr res) \<in> set (trace (try_upload env p f sk w))"
  shows "\<exists>pre. outcome (upload_attempt env p f sk w) =
           outcome (check_failed res
             (snd (upload_to_google_drive env p f sk (final (get_uploader env w)))))
         \<and> trace (upload_attempt env p f sk w) =
           pre @ Call (UploadToGoogleDrive p f sk) (Inr res) #
           trace (check_failed res
             (snd (upload_to_google_drive env p f sk (final (get_uploader env w)))))"
proof -
  have "Call (UploadToGoogleDrive p' f' s') (Inr res) \<in> set (trace (upload_attempt env p f sk w))"
    using assms by (rule try_upload_uploader_event) simp
  from upload_attempt_upload_call[OF this] show ?thesis
    by (simp only: sum.case) blast
qed

lemma try_upload_failed_list:
  assumes "Call (UploadToGoogleDrive p' f' s') (Inr (PDict kvs)) \<in> set (trace (try_upload env p f sk w))"
    and "map_of kvs (PStr ''failed'') = Some (PList xs)" and "xs \<noteq> []"
  shows "outcome (try_upload env p f sk w) = Inr 1
    \<and> last (trace (try_upload env p f sk w)) =
        LogWarning (''Some files failed ('' @ str_of_nat (length xs) @ '')'')"
proof -
  note cf = check_failed_list[OF assms(2,3)]
  from try_upload_upload_returned[OF assms(1)] show ?thesis
    by (auto simp add: try_upload_run cf)
qed

lemma try_upload_no_failed:
  assumes "Call (UploadToGoogleDrive p' f' s') (Inr (PDict kvs)) \<in> set (trace (try_upload env p f sk w))"
    and "case map_of kvs (PStr ''failed'') of None \<Rightarrow> True | Some v \<Rightarrow> \<not> truthy v"
  shows "outcome (try_upload env p f sk w) = Inr 0
    \<and> last (trace (try_upload env p f sk w)) = LogInfo ''Upload completed successfully!''"
proof -
  note cf = check_failed_falsy[OF assms(2)]
  from try_upload_upload_returned[OF assms(1)] show ?thesis
    by (auto simp add: try_upload_run cf)
qed

lemma try_upload_raised:
  assumes "Call c (Inl e) \<in> set (trace (try_upload env p f sk w))"
    and "c = ImportUploader \<or> c = UploadToGoogleDrive p' f' s'"
  shows "if is_Exception e
         then outcome (try_upload env p f sk w) = Inr 1
            \<and> last (trace (try_upload env p f sk w)) = LogError (''Upload failed: '' @ exc_str e)
         else outcome (try_upload env p f sk w) = Inl e"
proof -
  have in_ua: "Call c (Inl e) \<in> set (trace (upload_attempt env p f sk w))"
    using assms(1) by (rule try_upload_uploader_event) (use assms(2) in auto)
  have "outcome (upload_attempt env p f sk w) = Inl e"
  proof (cases "c = ImportUploader")
    case True
    with in_ua show ?thesis by (simp add: upload_attempt_import_raised)
  next
    case False
    with assms(2) in_ua
    have "Call (UploadToGoogleDrive p' f' s') (Inl e) \<in> set (trace (upload_attempt env p f sk w))"
      by simp
    from upload_attempt_upload_call[OF this] show ?thesis by simp
  qed
  then show ?thesis by (simp add: try_upload_run)
qed

lemma try_upload_raising_calls:
  assumes "Call c (Inl e) \<in> set (trace (try_upload env p f sk w))"
  shows "c = ImportUploader \<or> c = UploadToGoogleDrive p f sk"
  using assms get_uploader_events[of "Call c (Inl e)" env w]
  by (auto simp: try_upload_run upload_attempt_run split: sum.splits if_splits)

lemma try_upload_no_swallow:
  assumes "Call c (Inl e) \<in> set (trace (try_upload env p f sk w))" and "\<not> is_Exception e"
  shows "outcome (try_upload env p f sk w) = Inl e"
  using try_upload_raised[OF assms(1) try_upload_raising_calls[OF assms(1)]] assms(2) by simp

subsection \<open>The handlers, statement by statement\<close>

lemma handle_upload_run:
  "outcome (handle_upload env a w) =
     (case outcome (ensure_drive_mounted env w) of
        Inl e \<Rightarrow> Inl e
      | Inr u \<Rightarrow>
          if path_exists env (path a) (final (ensure_drive_mounted env w))
          then outcome (try_upload env (PStr (path a)) (py_opt_str (folder_id a)) (\<not> no_skip a)
                 (final (ensure_drive_mounted env w)))
          else Inr 1)"
  "trace (handle_upload env a w) =
     [Print rule60, Print ''GOOGLE DRIVE UPLOADER'', Print rule60] @
     trace (ensure_drive_mounted env w) @
     (case outcome (ensure_drive_mounted env w) of
        Inl e \<Rightarrow> []
      | Inr u \<Rightarrow>
          Call (PathExists (path a))
            (Inr (PBool (path_exists env (path a) (final (ensure_drive_mounted env w))))) #
          (if path_exists env (path a) (final (ensure_drive_mounted env w))
           then trace (try_upload env (PStr (path a)) (py_opt_str (folder_id a)) (\<not> no_skip a)
                  (final (ensure_drive_mounted env w)))
           else [LogError (''Path does not exist: '' @ path a)]))"
  by (simp_all add: handle_upload_def run_simps split: sum.splits)

lemma upload_downloaded_run:
  "outcome (upload_downloaded env a v w) =
     (case outcome (ensure_drive_mounted env w) of
        Inl e \<Rightarrow> Inl e
      | Inr u \<Rightarrow> outcome (try_upload env v (py_opt_str (folder_id a)) (\<not> no_skip a)
                   (final (ensure_drive_mounted env w))))"
  "trace (upload_downloaded env a v w) =
     trace (ensure_drive_mounted env w) @
     (case outcome (ensure_drive_mounted env w) of
        Inl e \<Rightarrow> []
      | Inr u \<Rightarrow>
          [Print (newline @ rule60), Print ''UPLOADING TO GOOGLE DRIVE'', Print rule60] @
          trace (try_upload env v (py_opt_str (folder_id a)) (\<not> no_skip a)
                   (final (ensure_drive_mounted env w))))"
  by (simp_all add: upload_downloaded_eq run_simps split: sum.splits)

lemma handle_download_run:
  "outcome (handle_download env a w) =
     (case outcome ((if prefix ''/content/drive'' (destination a)
                     then ensure_drive_mounted env else ret ()) w) of
        Inl e \<Rightarrow> Inl e
      | Inr u \<Rightarrow>
          if upload a \<and> \<not> truthy (py_opt_str (folder_id a)) then Inr 1
          else
            (case fst (download_torrent env (torrent a) (destination a) (\<not> no_resume a)
                    (final ((if prefix ''/content/drive'' (destination a)
                             then ensure_drive_mounted env else ret ()) w))) of
               Inl e \<Rightarrow> Inl e
             | Inr v \<Rightarrow>
                 if \<not> truthy v then Inr 1
                 else if upload a then
                   outcome (upload_downloaded env a v
                     (snd (download_torrent env (torrent a) (destination a) (\<not> no_resume a)
                        (final ((if prefix ''/content/drive'' (destination a)
                                 then ensure_drive_mounted env else ret ()) w)))))
                 else Inr 0))"
  "trace (handle_download env a w) =
     [Print rule60, Print ''TORRENT DOWNLOADER'', Print rule60] @
     trace ((if prefix ''/content/drive'' (destination a)
             then ensure_drive_mounted env else ret ()) w) @
     (case outcome ((if prefix ''/content/drive'' (destination a)
                     then ensure_drive_mounted env else ret ()) w) of
        Inl e \<Rightarrow> []
      | Inr u \<Rightarrow>
          if upload a \<and> \<not> truthy (py_opt_str (folder_id a))
          then [LogError ''--folder-id is required when using --upload'']
          else
            LogInfo (''Starting download: '' @ torrent a) #
            Call (DownloadTorrent (torrent a) (destination a) (\<not> no_resume a))
              (fst (download_torrent env (torrent a) (destination a) (\<not> no_resume a)
                    (final ((if prefix ''/content/drive'' (destination a)
                             then ensure_drive_mounted env else ret ()) w)))) #
            (case fst (download_torrent env (torrent a) (destination a) (\<not> no_resume a)
                    (final ((if prefix ''/content/drive'' (destination a)
                             then ensure_drive_mounted env else ret ()) w))) of
               Inl e \<Rightarrow> []
             | Inr v \<Rightarrow>
                 if \<not> truthy v then [LogError ''Download failed or cancelled'']
                 else
                   LogInfo (''Download completed: '' @ py_format env v) #
                   (if upload a then
                      trace (upload_downloaded env a v
                        (snd (download_torrent env (torrent a) (destination a) (\<not> no_resume a)
                           (final ((if prefix ''/content/drive'' (destination a)
                                    then ensure_drive_mounted env else ret ()) w)))))
                    else [])))"
  by (cases "prefix ''/content/drive'' (destination a)"; simp add: handle_download_def run_simps split: sum.splits)+

lemma upload_downloaded_no_download [simp]:
  "Call (DownloadTorrent t d b) r \<notin> set (trace (upload_downloaded env a v w))"
  by (auto simp: upload_downloaded_run split: sum.splits)

text \<open>
  A call to the uploader, or the import of it, is found in a handler's trace only
  inside the try statement, and the handler ends as the try statement does.
\<close>

lemma handle_upload_reach:
  assumes "ev \<in> set (trace (handle_upload env a w))"
    and "is_upload_call ev \<or> (\<exists>r. ev = Call ImportUploader r)"
  shows "\<exists>pre p f sk w1.
           ev \<in> set (trace (try_upload env p f sk w1))
         \<and> outcome (handle_upload env a w) = outcome (try_upload env p f sk w1)
         \<and> trace (handle_upload env a w) = pre @ trace (try_upload env p f sk w1)"
proof -
  let ?T = "try_upload env (PStr (path a)) (py_opt_str (folder_id a)) (\<not> no_skip a)
              (final (ensure_drive_mounted env w))"
  have not_mount: "ev \<notin> set (trace (ensure_drive_mounted env w))"
    using assms(2) mount_events[of ev env w] by auto
  from assms not_mount have reached: "outcome (ensure_drive_mounted env w) = Inr ()"
    "path_exists env (path a) (final (ensure_drive_mounted env w))"
    by (auto simp: handle_upload_run split: sum.splits if_splits)
  from assms not_mount reached have "ev \<in> set (trace ?T)"
    by (auto simp: handle_upload_run)
  moreover have "outcome (handle_upload env a w) = outcome ?T"
    using reached by (simp add: handle_upload_run)
  moreover have "trace (handle_upload env a w) =
      ([Print rule60, Print ''GOOGLE DRIVE UPLOADER'', Print rule60] @
       trace (ensure_drive_mounted env w) @
       [Call (PathExists (path a)) (Inr (PBool True))]) @ trace ?T"
    using reached by (simp add: handle_upload_run)
  ultimately show ?thesis by blast
qed

lemma upload_downloaded_reach:
  assumes "ev \<in> set (trace (upload_downloaded env a v w))"
    and "is_upload_call ev \<or> (\<exists>r. ev = Call ImportUploader r)"
  shows "\<exists>pre p f sk w1.
           ev \<in> set (trace (try_upload env p f sk w1))
         \<and> outcome (upload_downloaded env a v w) = outcome (try_upload env p f sk w1)
         \<and> trace (upload_downloaded env a v w) = pre @ trace (try_upload env p f sk w1)"
proof -
  let ?T = "try_upload env v (py_opt_str (folder_id a)) (\<not> no_skip a)
              (final (ensure_drive_mounted env w))"
  have not_mount: "ev \<notin> set (trace (ensure_drive_mounted env w))"
    using assms(2) mount_events[of ev env w] by auto
  from assms not_mount have reached: "outcome (ensure_drive_mounted env w) = Inr ()"
    by (auto simp: upload_downloaded_run split: sum.splits)
  from assms not_mount reached have "ev \<in> set (trace ?T)"
    by (auto simp: upload_downloaded_run)
  moreover have "outcome (upload_downloaded env a v w) = outcome ?T"
    using reached by (simp add: upload_downloaded_run)
  moreover have "trace (upload_downloaded env a v w) =
      (trace (ensure_drive_mounted env w) @
       [Print (newline @ rule60), Print ''UPLOADING TO GOOGLE DRIVE'', Print rule60]) @ trace ?T"
    using reached by (simp add: upload_downloaded_run)
  ultimately show ?thesis by blast
qed

lemma handle_download_reach:
  assumes "ev \<in> set (trace (handle_download env a w))"
    and "is_upload_call ev \<or> (\<exists>r. ev = Call ImportUploader r)"
  shows "\<exists>pre p f sk w1.
           ev \<in> set (trace (try_upload env p f sk w1))
         \<and> outcome (handle_download env a w) = outcome (try_upload env p f sk w1)
         \<and> trace (handle_download env a w) = pre @ trace (try_upload env p f sk w1)"
proof -
  define M where "M = (if prefix ''/content/drive'' (destination a)
                       then ensure_drive_mounted env else ret ()) w"
  define D where "D = download_torrent env (torrent a) (destination a) (\<not> no_resume a) (final M)"
  note run = handle_download_run[of env a w, folded M_def, folded D_def]
  have not_mount: "ev \<notin> set (trace M)"
    using assms(2) mount_events[of ev env w] unfolding M_def by (auto split: if_splits)
  from assms not_mount have reached: "outcome M = Inr ()"
    "\<not> (upload a \<and> \<not> truthy (py_opt_str (folder_id a)))"
    by (auto simp: run split: sum.splits if_splits)
  have "\<exists>v. fst D = Inr v \<and> truthy v \<and> upload a"
    using assms not_mount reached
    by (cases "fst D") (auto simp: run split: if_splits)
  then obtain v where v: "fst D = Inr v" "truthy v" "upload a"
    by blast
  let ?U = "upload_downloaded env a v (snd D)"
  from assms not_mount reached v have in_U: "ev \<in> set (trace ?U)"
    by (auto simp: run)
  have out: "outcome (handle_download env a w) = outcome ?U"
    using reached v by (simp add: run)
  have tr: "trace (handle_download env a w) =
      ([Print rule60, Print ''TORRENT DOWNLOADER'', Print rule60] @ trace M @
       [LogInfo (''Starting download: '' @ torrent a),
        Call (DownloadTorrent (torrent a) (destination a) (\<not> no_resume a)) (Inr v),
        LogInfo (''Download completed: '' @ py_format env v)]) @ trace ?U"
    using reached v by (simp add: run)
  from upload_downloaded_reach[OF in_U assms(2)] obtain pre p f sk w1 where
    "ev \<in> set (trace (try_upload env p f sk w1))"
    "outcome ?U = outcome (try_upload env p f sk w1)"
    "trace ?U = pre @ trace (try_upload env p f sk w1)"
    by blast
  with out tr show ?thesis
    by (metis append.assoc)
qed

lemma handler_reach:
  assumes "h = handle_download env a \<or> h = handle_upload env a"
    and "ev \<in> set (trace (h w))"
    and "is_upload_call ev \<or> (\<exists>r. ev = Call ImportUploader r)"
  shows "\<exists>pre p f sk w1.
           ev \<in> set (trace (try_upload env p f sk w1))
         \<and> outcome (h w) = outcome (try_upload env p f sk w1)
         \<and> trace (h w) = pre @ trace (try_upload env p f sk w1)"
  using assms handle_download_reach[of ev env a w] handle_upload_reach[of ev env a w] by blast

lemma last_reached:
  "ev \<in> set t \<Longrightarrow> last (pre @ t) = last t"
  by (cases t) auto

text \<open>
  No handler swallows an exception that is not an instance of \<open>Exception\<close>: once a
  call has raised one, the handler ends with it.
\<close>

lemma handle_upload_no_swallow:
  assumes "Call c (Inl e) \<in> set (trace (handle_upload env a w))" and "\<not> is_Exception e"
  shows "outcome (handle_upload env a w) = Inl e"
proof (cases "Call c (Inl e) \<in> set (trace (ensure_drive_mounted env w))")
  case True
  from mount_no_swallow[OF True assms(2)] show ?thesis by (simp add: handle_upload_run)
next
  case False
  with assms(1) have reached: "outcome (ensure_drive_mounted env w) = Inr ()"
    "path_exists env (path a) (final (ensure_drive_mounted env w))"
    by (auto simp: handle_upload_run split: sum.splits if_splits)
  with assms(1) False have "Call c (Inl e) \<in> set (trace (try_upload env (PStr (path a))
      (py_opt_str (folder_id a)) (\<not> no_skip a) (final (ensure_drive_mounted env w))))"
    by (auto simp: handle_upload_run)
  from try_upload_no_swallow[OF this assms(2)] reached show ?thesis by (simp add: handle_upload_run)
qed

lemma upload_downloaded_no_swallow:
  assumes "Call c (Inl e) \<in> set (trace (upload_downloaded env a v w))" and "\<not> is_Exception e"
  shows "outcome (upload_downloaded env a v w) = Inl e"
proof (cases "Call c (Inl e) \<in> set (trace (ensure_drive_mounted env w))")
  case True
  from mount_no_swallow[OF True assms(2)] show ?thesis by (simp add: upload_downloaded_run)
next
  case False
  with assms(1) have reached: "outcome (ensure_drive_mounted env w) = Inr ()"
    by (auto simp: upload_downloaded_run split: sum.splits)
  with assms(1) False have "Call c (Inl e) \<in> set (trace (try_upload env v
      (py_opt_str (folder_id a)) (\<not> no_skip a) (final (ensure_drive_mounted env w))))"
    by (auto simp: upload_downloaded_run)
  from try_upload_no_swallow[OF this assms(2)] reached show ?thesis by (simp add: upload_downloaded_run)
qed

lemma handle_download_no_swallow:
  assumes "Call c (Inl e) \<in> set (trace (handle_download env a w))" and "\<not> is_Exception e"
  shows "outcome (handle_download env a w) = Inl e"
proof -
  define M where "M = (if prefix ''/content/drive'' (destination a)
                       then ensure_drive_mounted env else ret ()) w"
  define D where "D = download_torrent env (torrent a) (destination a) (\<not> no_resume a) (final M)"
  note run = handle_download_run[of env a w, folded M_def, folded D_def]
  show ?thesis
  proof (cases "Call c (Inl e) \<in> set (trace M)")
    case True
    then have "outcome M = Inl e"
      using mount_no_swallow[of c e env w] assms(2) unfolding M_def by (auto split: if_splits)
    then show ?thesis by (simp add: run)
  next
    case False
    with assms(1) have reached: "outcome M = Inr ()"
      "\<not> (upload a \<and> \<not> truthy (py_opt_str (folder_id a)))"
      by (auto simp: run split: sum.splits if_splits)
    show ?thesis
    proof (cases "fst D")
      case (Inl e')
      with assms(1) False reached have "e' = e" by (auto simp: run)
      with Inl reached show ?thesis by (simp add: run)
    next
      case (Inr v)
      with assms(1) False reached have
        "truthy v \<and> upload a \<and> Call c (Inl e) \<in> set (trace (upload_downloaded env a v (snd D)))"
        by (auto simp: run split: if_splits)
      with upload_downloaded_no_swallow[of c e env a v "snd D"] assms(2) Inr reached show ?thesis
        by (simp add: run)
    qed
  qed
qed

lemma dispatch_no_swallow:
  assumes "Call x (Inl e) \<in> set (trace (dispatch env a c w))" and "\<not> is_Exception e"
  shows "outcome (dispatch env a c w) = Inl e"
proof -
  have "outcome (handle_status env a w) = Inl e"
    if "Call x (Inl e) \<in> set (trace (handle_status env a w))"
    using that
    by (auto simp: handle_status_def run_simps print_text_run
          split: sum.splits if_splits option.splits)
  moreover have "outcome (handle_clear env a w) = Inl e"
    if "Call x (Inl e) \<in> set (trace (handle_clear env a w))"
    using that
    by (auto simp: handle_clear_def run_simps print_text_run
          split: sum.splits if_splits option.splits)
  ultimately show ?thesis
    using assms handle_download_no_swallow[of x e env a w] handle_upload_no_swallow[of x e env a w]
    by (auto simp: dispatch_def run_simps split: if_splits)
qed

lemma main_run:
  assumes "command a = Some c" and "c \<noteq> []"
  shows "outcome (main env a w) =
           (case outcome (dispatch env a c w) of
              Inr code \<Rightarrow> Inr code
            | Inl e \<Rightarrow> if e = KeyboardInterrupt then Inr 130
                       else if is_Exception e then Inr 1 else Inl e)"
    and "trace (main env a w) =
           trace (dispatch env a c w) @
           (case outcome (dispatch env a c w) of
              Inr code \<Rightarrow> []
            | Inl e \<Rightarrow> if e = KeyboardInterrupt
                       then [Print (newline @ ''Operation cancelled by user'')]
                       else if is_Exception e
                       then [LogErrorExcInfo (''Operation failed: '' @ exc_str e)] else [])"
  using assms by (simp_all add: main_def run_simps split: sum.splits)

section \<open>The claims\<close>

text \<open>
  \<^bold>\<open>C1.\<close> The claim has the handler return 1 and log the error on every download with
  \<open>--upload\<close> and no folder identifier. The test for the folder identifier stands after
  the mount of the Drive, which the handler makes first when the destination lies
  under \<open>/content/drive\<close>, and \<open>ensure_drive_mounted\<close> catches ImportError only: when
  \<open>drive.mount\<close> raises, the handler ends with that exception and logs nothing.
\<close>

theorem mount_failure_preempts_folder_id_check:
  "upload drive_download_cmd
   \<and> folder_id drive_download_cmd = None
   \<and> outcome (handle_download mount_fails_host drive_download_cmd []) =
       Inl (Exception ''mount failed'')
   \<and> trace (handle_download mount_fails_host drive_download_cmd []) =
       [Print rule60, Print ''TORRENT DOWNLOADER'', Print rule60,
        Enter EnsureDriveMounted, Call ImportColab (Inr PNone),
        Call (PathExists ''/content/drive/MyDrive'') (Inr (PBool False)),
        Print ''Mounting Google Drive...'',
        Call (DriveMount ''/content/drive'') (Inl (Exception ''mount failed''))]"
  by code_simp

text \<open>
  \<^bold>\<open>C1, amended.\<close> A download with \<open>--upload\<close> and no folder identifier (none given, or
  the empty string, which Python also takes as false) never calls the download or the
  upload collaborator, whatever happens. Where the mount that precedes the test is not
  made or returns, the handler returns 1 and the error
  \<open>--folder-id is required when using --upload\<close> is the last thing it logs; where the
  mount raises, the handler ends with that exception and logs no error.
\<close>

theorem download_upload_without_folder_id:
  assumes "upload a" and "\<not> truthy (py_opt_str (folder_id a))"
  shows "(\<forall>ev \<in> set (trace (handle_download env a w)).
            \<not> is_download_call ev \<and> \<not> is_upload_call ev)
       \<and> ((prefix ''/content/drive'' (destination a) \<longrightarrow>
              outcome (ensure_drive_mounted env w) = Inr ()) \<longrightarrow>
            outcome (handle_download env a w) = Inr 1
          \<and> last (trace (handle_download env a w)) =
              LogError ''--folder-id is required when using --upload'')
       \<and> (\<forall>e. prefix ''/content/drive'' (destination a)
              \<and> outcome (ensure_drive_mounted env w) = Inl e \<longrightarrow>
            outcome (handle_download env a w) = Inl e
          \<and> (\<forall>m. LogError m \<notin> set (trace (handle_download env a w))))"
proof -
  define M where "M = (if prefix ''/content/drive'' (destination a)
                       then ensure_drive_mounted env else ret ()) w"
  have M_events: "\<And>ev. ev \<in> set (trace M) \<Longrightarrow> \<not> is_download_call ev \<and> \<not> is_upload_call ev"
    unfolding M_def by (rule mount_first_events)
  have M_no_error: "\<And>m. LogError m \<notin> set (trace M)"
    unfolding M_def by (auto dest!: mount_events split: if_splits)
  have tr: "trace (handle_download env a w) =
      [Print rule60, Print ''TORRENT DOWNLOADER'', Print rule60] @ trace M @
      (case outcome M of Inl e \<Rightarrow> []
       | Inr u \<Rightarrow> [LogError ''--folder-id is required when using --upload''])"
    and out: "outcome (handle_download env a w) =
      (case outcome M of Inl e \<Rightarrow> Inl e | Inr u \<Rightarrow> Inr 1)"
    using assms unfolding M_def by (simp_all add: handle_download_run cong: sum.case_cong)
  have returned: "outcome M = Inr ()"
    if "prefix ''/content/drive'' (destination a) \<longrightarrow> outcome (ensure_drive_mounted env w) = Inr ()"
    using that unfolding M_def by simp
  have raised: "outcome M = Inl e"
    if "prefix ''/content/drive'' (destination a)" "outcome (ensure_drive_mounted env w) = Inl e"
    for e
    using that unfolding M_def by simp
  have "\<forall>ev \<in> set (trace (handle_download env a w)).
            \<not> is_download_call ev \<and> \<not> is_upload_call ev"
    using M_events by (auto simp: tr split: sum.splits)
  moreover have "outcome (handle_download env a w) = Inr 1
          \<and> last (trace (handle_download env a w)) =
              LogError ''--folder-id is required when using --upload''"
    if "prefix ''/content/drive'' (destination a) \<longrightarrow> outcome (ensure_drive_mounted env w) = Inr ()"
    using returned[OF that] by (simp add: tr out)
  moreover have "outcome (handle_download env a w) = Inl e
          \<and> (\<forall>m. LogError m \<notin> set (trace (handle_download env a w)))"
    if "prefix ''/content/drive'' (destination a)" "outcome (ensure_drive_mounted env w) = Inl e"
    for e
    using raised[OF that] M_no_error by (simp add: tr out)
  ultimately show ?thesis by blast
qed

theorem download_upload_without_folder_id_witness:
  "upload drive_download_cmd
   \<and> \<not> truthy (py_opt_str (folder_id drive_download_cmd))
   \<and> prefix ''/content/drive'' (destination drive_download_cmd)
   \<and> outcome (ensure_drive_mounted colab_host []) = Inr ()
   \<and> outcome (handle_download colab_host drive_download_cmd []) = Inr 1
   \<and> last (trace (handle_download colab_host drive_download_cmd [])) =
       LogError ''--folder-id is required when using --upload''"
proof -
  have h1: "upload drive_download_cmd" by (simp add: drive_download_cmd_def)
  have h2: "\<not> truthy (py_opt_str (folder_id drive_download_cmd))"
    by (simp add: drive_download_cmd_def download_cmd_def)
  have h3: "prefix ''/content/drive'' (destination drive_download_cmd)"
    by (simp add: drive_download_cmd_def)
  have h4: "outcome (ensure_drive_mounted colab_host []) = Inr ()"
    by code_simp
  from download_upload_without_folder_id[OF h1 h2, of colab_host "[]"] h1 h2 h3 h4
  show ?thesis by blast
qed

text \<open>
  \<^bold>\<open>C2.\<close> When the download collaborator has been called and has returned a falsy
  value, the handler returns 1, its last log record is the error
  \<open>Download failed or cancelled\<close>, and the run holds no call to the upload collaborator,
  whether \<open>--upload\<close> was given or not.
\<close>

theorem empty_download_is_failure:
  assumes "Call (DownloadTorrent t d r) (Inr v) \<in> set (trace (handle_download env a w))"
    and "\<not> truthy v"
  shows "outcome (handle_download env a w) = Inr 1
     \<and> last (trace (handle_download env a w)) = LogError ''Download failed or cancelled''
     \<and> (\<forall>ev \<in> set (trace (handle_download env a w)). \<not> is_upload_call ev)"
proof -
  define M where "M = (if prefix ''/content/drive'' (destination a)
                       then ensure_drive_mounted env else ret ()) w"
  define D where "D = download_torrent env (torrent a) (destination a) (\<not> no_resume a) (final M)"
  have M_events: "\<And>ev. ev \<in> set (trace M) \<Longrightarrow> \<not> is_download_call ev \<and> \<not> is_upload_call ev"
    unfolding M_def by (rule mount_first_events)
  have M_no: "Call (DownloadTorrent t d r) (Inr v) \<notin> set (trace M)"
    using M_events[of "Call (DownloadTorrent t d r) (Inr v)"] by auto
  note run = handle_download_run[of env a w, folded M_def, folded D_def]
  from assms(1) M_no have reached: "outcome M = Inr ()"
    "\<not> (upload a \<and> \<not> truthy (py_opt_str (folder_id a)))"
    by (auto simp: run split: sum.splits if_splits)
  from assms(1) M_no reached have "fst D = Inr v"
    by (auto simp: run split: sum.splits if_splits)
  with reached assms(2) have
    "outcome (handle_download env a w) = Inr 1"
    "trace (handle_download env a w) =
       [Print rule60, Print ''TORRENT DOWNLOADER'', Print rule60] @ trace M @
       [LogInfo (''Starting download: '' @ torrent a),
        Call (DownloadTorrent (torrent a) (destination a) (\<not> no_resume a)) (Inr v),
        LogError ''Download failed or cancelled'']"
    by (simp_all add: run)
  then show ?thesis using M_events by auto
qed

theorem empty_download_is_failure_witness:
  "Call (DownloadTorrent ''magnet:?xt=abc'' ''/tmp/out'' True) (Inr PNone)
     \<in> set (trace (handle_download failing_download_host download_upload_cmd []))
   \<and> outcome (handle_download failing_download_host download_upload_cmd []) = Inr 1
   \<and> last (trace (handle_download failing_download_host download_upload_cmd [])) =
       LogError ''Download failed or cancelled''"
proof -
  have call: "Call (DownloadTorrent ''magnet:?xt=abc'' ''/tmp/out'' True) (Inr PNone)
     \<in> set (trace (handle_download failing_download_host download_upload_cmd []))"
    by code_simp
  from empty_download_is_failure[OF call] call show ?thesis by simp
qed

text \<open>
  \<^bold>\<open>C3.\<close> In both handlers, when the upload collaborator has been called and has
  returned a mapping whose \<open>'failed'\<close> entry is a list: a non-empty list gives exit code 1
  and the warning with the number of failed items as the last record; an empty list
  gives exit code 0 and the success record. Nothing else in the mapping is read, so
  the number of items that succeeded plays no part.
\<close>

theorem upload_result_decides_exit_code:
  assumes "h = handle_download env a \<or> h = handle_upload env a"
    and "Call (UploadToGoogleDrive p f s) (Inr (PDict kvs)) \<in> set (trace (h w))"
    and "map_of kvs (PStr ''failed'') = Some (PList xs)"
  shows "if xs \<noteq> []
         then outcome (h w) = Inr 1
            \<and> last (trace (h w)) =
                LogWarning (''Some files failed ('' @ str_of_nat (length xs) @ '')'')
         else outcome (h w) = Inr 0
            \<and> last (trace (h w)) = LogInfo ''Upload completed successfully!''"
proof -
  from handler_reach[OF assms(1,2)] obtain pre p' f' sk w1 where
    r: "Call (UploadToGoogleDrive p f s) (Inr (PDict kvs)) \<in> set (trace (try_upload env p' f' sk w1))"
       "outcome (h w) = outcome (try_upload env p' f' sk w1)"
       "trace (h w) = pre @ trace (try_upload env p' f' sk w1)"
    by auto
  show ?thesis
  proof (cases "xs = []")
    case True
    with assms(3) have "case map_of kvs (PStr ''failed'') of None \<Rightarrow> True | Some v \<Rightarrow> \<not> truthy v"
      by simp
    from try_upload_no_failed[OF r(1) this] True show ?thesis
      using r by (simp add: last_reached)
  next
    case False
    from try_upload_failed_list[OF r(1) assms(3) False] False show ?thesis
      using r by (simp add: last_reached)
  qed
qed

theorem upload_result_decides_exit_code_witness:
  "outcome (handle_upload partial_upload_host upload_cmd [''/data/file.iso'']) = Inr 1
   \<and> last (trace (handle_upload partial_upload_host upload_cmd [''/data/file.iso''])) =
       LogWarning ''Some files failed (1)''
   \<and> outcome (handle_download plain_host download_upload_cmd []) = Inr 0
   \<and> last (trace (handle_download plain_host download_upload_cmd [])) =
       LogInfo ''Upload completed successfully!''"
proof -
  have call1: "Call (UploadToGoogleDrive (PStr ''/data/file.iso'') (PStr ''abc123'') True)
      (Inr (PDict [(PStr ''uploaded'', PList [PStr ''a'', PStr ''b'']),
                   (PStr ''failed'', PList [PStr ''c''])]))
     \<in> set (trace (handle_upload partial_upload_host upload_cmd [''/data/file.iso'']))"
    by code_simp
  have failed1: "map_of [(PStr ''uploaded'', PList [PStr ''a'', PStr ''b'']),
                    (PStr ''failed'', PList [PStr ''c''])] (PStr ''failed'') = Some (PList [PStr ''c''])"
    by simp
  have call2: "Call (UploadToGoogleDrive (PStr ''/tmp/out/file.iso'') (PStr ''abc123'') True)
      (Inr (PDict [(PStr ''uploaded'', PList [PStr ''/tmp/out/file.iso'']),
                   (PStr ''failed'', PList [])]))
     \<in> set (trace (handle_download plain_host download_upload_cmd []))"
    by code_simp
  have failed2: "map_of [(PStr ''uploaded'', PList [PStr ''/tmp/out/file.iso'']),
                    (PStr ''failed'', PList [])] (PStr ''failed'') = Some (PList [])"
    by simp
  have n: "str_of_nat (Suc 0) = ''1''" by code_simp
  from upload_result_decides_exit_code[of "handle_upload partial_upload_host upload_cmd" partial_upload_host upload_cmd,
          OF _ call1 failed1]
       upload_result_decides_exit_code[of "handle_download plain_host download_upload_cmd" plain_host download_upload_cmd,
          OF _ call2 failed2]
  show ?thesis by (simp add: n)
qed

text \<open>
  \<^bold>\<open>C4.\<close> The claim speaks of any exception. The handlers catch with
  \<open>except Exception\<close>, so an interrupt raised by the upload collaborator is not caught
  there: it leaves \<open>handle_upload\<close>.
\<close>

theorem keyboard_interrupt_leaves_upload_handler:
  "Call (UploadToGoogleDrive (PStr ''/data/file.iso'') (PStr ''abc123'') True)
      (Inl KeyboardInterrupt)
     \<in> set (trace (handle_upload interrupted_upload_host upload_cmd [''/data/file.iso'']))
   \<and> outcome (handle_upload interrupted_upload_host upload_cmd [''/data/file.iso'']) =
       Inl KeyboardInterrupt"
  by code_simp

text \<open>
  \<^bold>\<open>C4, amended.\<close> In both handlers, an exception raised by the upload collaborator
  or by the import of the uploader module is caught, logged as \<open>Upload failed: ...\<close> and
  turned into exit code 1 when it is an instance of \<open>Exception\<close>; when it is not
  (KeyboardInterrupt, SystemExit) it leaves the handler.
\<close>

theorem uploader_exception_contained:
  assumes "h = handle_download env a \<or> h = handle_upload env a"
    and "Call c (Inl e) \<in> set (trace (h w))"
    and "c = ImportUploader \<or> c = UploadToGoogleDrive p f s"
  shows "if is_Exception e
         then outcome (h w) = Inr 1
            \<and> last (trace (h w)) = LogError (''Upload failed: '' @ exc_str e)
         else outcome (h w) = Inl e"
proof -
  have "is_upload_call (Call c (Inl e)) \<or> (\<exists>r. Call c (Inl e) = Call ImportUploader r)"
    using assms(3) by auto
  from handler_reach[OF assms(1,2) this] obtain pre p' f' sk w1 where
    r: "Call c (Inl e) \<in> set (trace (try_upload env p' f' sk w1))"
       "outcome (h w) = outcome (try_upload env p' f' sk w1)"
       "trace (h w) = pre @ trace (try_upload env p' f' sk w1)"
    by auto
  from try_upload_raised[OF r(1) assms(3)] show ?thesis
    using r by (simp add: last_reached)
qed

theorem uploader_exception_contained_witness:
  "outcome (handle_upload broken_upload_host upload_cmd [''/data/file.iso'']) = Inr 1
   \<and> last (trace (handle_upload broken_upload_host upload_cmd [''/data/file.iso''])) =
       LogError ''Upload failed: quota exceeded''
   \<and> outcome (handle_download interrupted_upload_host download_upload_cmd []) =
       Inl KeyboardInterrupt"
proof -
  have call1: "Call (UploadToGoogleDrive (PStr ''/data/file.iso'') (PStr ''abc123'') True)
      (Inl (Exception ''quota exceeded''))
     \<in> set (trace (handle_upload broken_upload_host upload_cmd [''/data/file.iso'']))"
    by code_simp
  have call2: "Call (UploadToGoogleDrive (PStr ''/tmp/out/file.iso'') (PStr ''abc123'') True)
      (Inl KeyboardInterrupt)
     \<in> set (trace (handle_download interrupted_upload_host download_upload_cmd []))"
    by code_simp
  from uploader_exception_contained[of "handle_upload broken_upload_host upload_cmd" broken_upload_host upload_cmd,
          OF _ call1]
       uploader_exception_contained[of "handle_download interrupted_upload_host download_upload_cmd"
             interrupted_upload_host download_upload_cmd, OF _ call2]
  show ?thesis by simp
qed

text \<open>
  \<^bold>\<open>C5.\<close> The claim has the status command always return 0. Both messages start with
  a character outside ASCII (U+2713, U+2717), and the handler has no guard around
  \<open>print\<close>: on a standard output that cannot encode the mark, \<open>print\<close> raises
  UnicodeEncodeError, nothing is printed, the handler ends with the exception and
  \<open>main\<close> turns it into exit code 1.
\<close>

theorem status_fails_on_ascii_stdout:
  "fst (get_download_status ascii_host []) = Inr (PBool False)
   \<and> outcome (handle_status ascii_host status_cmd []) =
       Inl (Exception (ascii_codec_error ''2717''))
   \<and> trace (handle_status ascii_host status_cmd []) =
       [Call GetDownloadStatus (Inr (PBool False))]
   \<and> outcome (main ascii_host status_cmd []) = Inr 1"
  by code_simp

text \<open>
  \<^bold>\<open>C5, amended.\<close> \<open>handle_status\<close> calls the status query first. When the query
  returns, the line is chosen between the two fixed messages by the truth value of what
  was returned (for a boolean, the boolean itself); where standard output can encode
  the line, the handler prints exactly that line and returns 0; where it cannot, the
  handler prints nothing and ends with the UnicodeEncodeError.
\<close>

theorem status_exits_0_when_printed:
  assumes "fst (get_download_status env w) = Inr v"
  shows "let line = (if truthy v then check_mark @ '' Found paused download session''
                     else ballot_x @ '' No paused download session found'')
         in case encode_error env line of
              None \<Rightarrow>
                outcome (handle_status env a w) = Inr 0
              \<and> trace (handle_status env a w) = [Call GetDownloadStatus (Inr v), Print line]
            | Some m \<Rightarrow>
                outcome (handle_status env a w) = Inl (Exception m)
              \<and> trace (handle_status env a w) = [Call GetDownloadStatus (Inr v)]"
  using assms
  by (simp add: handle_status_def run_simps print_text_run Let_def split: option.splits)

theorem status_exits_0_when_printed_witness:
  "fst (get_download_status plain_host []) = Inr (PBool False)
   \<and> encode_error plain_host (ballot_x @ '' No paused download session found'') = None
   \<and> outcome (handle_status plain_host status_cmd []) = Inr 0
   \<and> trace (handle_status plain_host status_cmd []) =
       [Call GetDownloadStatus (Inr (PBool False)),
        Print (ballot_x @ '' No paused download session found'')]"
proof -
  have q: "fst (get_download_status plain_host []) = Inr (PBool False)"
    by (simp add: plain_host_def)
  have enc: "encode_error plain_host (ballot_x @ '' No paused download session found'') = None"
    by (simp add: plain_host_def)
  from status_exits_0_when_printed[OF q, of status_cmd] q enc show ?thesis
    by (simp add: Let_def)
qed

text \<open>
  \<^bold>\<open>C6.\<close> The claim has the exit code mirror what the clear function returned. The
  messages start with the same two marks: on a standard output that cannot encode them
  the clear function returns True, \<open>print\<close> raises, the handler ends with the
  UnicodeEncodeError and \<open>main\<close> returns 1.
\<close>

theorem clear_fails_on_ascii_stdout:
  "fst (clear_session ascii_host []) = Inr (PBool True)
   \<and> outcome (handle_clear ascii_host clear_cmd []) =
       Inl (Exception (ascii_codec_error ''2713''))
   \<and> trace (handle_clear ascii_host clear_cmd []) = [Call ClearSession (Inr (PBool True))]
   \<and> outcome (main ascii_host clear_cmd []) = Inr 1"
  by code_simp

text \<open>
  \<^bold>\<open>C6, amended.\<close> \<open>handle_clear\<close> calls the clear function first. When it returns, the
  line is the success message for a true value and the failure message for a false
  one; where standard output can encode the line, the handler prints it and returns 0
  for a true value and 1 for a false one; where it cannot, the handler prints nothing
  and ends with the UnicodeEncodeError.
\<close>

theorem clear_mirrors_collaborator_when_printed:
  assumes "fst (clear_session env w) = Inr v"
  shows "let line = (if truthy v then check_mark @ '' Download session cleared''
                     else ballot_x @ '' Failed to clear session'')
         in case encode_error env line of
              None \<Rightarrow>
                outcome (handle_clear env a w) = Inr (if truthy v then 0 else 1)
              \<and> trace (handle_clear env a w) = [Call ClearSession (Inr v), Print line]
            | Some m \<Rightarrow>
                outcome (handle_clear env a w) = Inl (Exception m)
              \<and> trace (handle_clear env a w) = [Call ClearSession (Inr v)]"
  using assms
  by (simp add: handle_clear_def run_simps print_text_run Let_def split: option.splits)

theorem clear_mirrors_collaborator_when_printed_witness:
  "fst (clear_session plain_host []) = Inr (PBool True)
   \<and> encode_error plain_host (check_mark @ '' Download session cleared'') = None
   \<and> outcome (handle_clear plain_host clear_cmd []) = Inr 0
   \<and> trace (handle_clear plain_host clear_cmd []) =
       [Call ClearSession (Inr (PBool True)),
        Print (check_mark @ '' Download session cleared'')]"
proof -
  have q: "fst (clear_session plain_host []) = Inr (PBool True)"
    by (simp add: plain_host_def)
  have enc: "encode_error plain_host (check_mark @ '' Download session cleared'') = None"
    by (simp add: plain_host_def)
  from clear_mirrors_collaborator_when_printed[OF q, of clear_cmd] q enc show ?thesis
    by (simp add: Let_def)
qed

text \<open>
  \<^bold>\<open>C7.\<close> The claim has every upload of a path that does not exist end with the error
  and exit code 1. The handler runs the Mount Helper before it looks at the path, so
  two runs escape the claim: when \<open>drive.mount\<close> raises, the handler ends with that
  exception before the path is tested; and a path that is missing when the command
  starts but appears with the mount (the mount point itself) is found and uploaded,
  with exit code 0.
\<close>

theorem mount_comes_before_missing_path_test:
  "\<not> path_exists mount_fails_host (path upload_cmd) []
   \<and> outcome (handle_upload mount_fails_host upload_cmd []) = Inl (Exception ''mount failed'')
   \<and> \<not> path_exists colab_host (path drive_upload_cmd) []
   \<and> outcome (handle_upload colab_host drive_upload_cmd []) = Inr 0
   \<and> Call (UploadToGoogleDrive (PStr ''/content/drive/MyDrive'') (PStr ''abc123'') True)
        (Inr (PDict [(PStr ''uploaded'', PList [PStr ''/content/drive/MyDrive'']),
                     (PStr ''failed'', PList [])]))
      \<in> set (trace (handle_upload colab_host drive_upload_cmd []))"
  by code_simp

text \<open>
  \<^bold>\<open>C7, amended.\<close> When the path does not exist at the moment the handler tests it,
  that is after the Mount Helper has run, the upload collaborator is never called;
  where the Mount Helper has returned, the handler returns 1 and its last log record is
  the error \<open>Path does not exist: \<close> followed by the path; where the Mount Helper has
  raised, the handler ends with that exception.
\<close>

theorem missing_path_is_rejected:
  assumes "\<not> path_exists env (path a) (final (ensure_drive_mounted env w))"
  shows "(\<forall>ev \<in> set (trace (handle_upload env a w)). \<not> is_upload_call ev)
       \<and> (outcome (ensure_drive_mounted env w) = Inr () \<longrightarrow>
            outcome (handle_upload env a w) = Inr 1
          \<and> last (trace (handle_upload env a w)) = LogError (''Path does not exist: '' @ path a))
       \<and> (\<forall>e. outcome (ensure_drive_mounted env w) = Inl e \<longrightarrow>
            outcome (handle_upload env a w) = Inl e)"
proof -
  have "\<And>ev. ev \<in> set (trace (ensure_drive_mounted env w)) \<Longrightarrow> \<not> is_upload_call ev"
    by (auto dest!: mount_events)
  then show ?thesis
    using assms by (auto simp: handle_upload_run split: sum.splits)
qed

theorem missing_path_is_rejected_witness:
  "\<not> path_exists colab_host (path upload_cmd) (final (ensure_drive_mounted colab_host []))
   \<and> outcome (ensure_drive_mounted colab_host []) = Inr ()
   \<and> Call (DriveMount ''/content/drive'') (Inr PNone)
        \<in> set (trace (ensure_drive_mounted colab_host []))
   \<and> outcome (handle_upload colab_host upload_cmd []) = Inr 1
   \<and> last (trace (handle_upload colab_host upload_cmd [])) =
       LogError ''Path does not exist: /data/file.iso''"
proof -
  have missing: "\<not> path_exists colab_host (path upload_cmd)
                    (final (ensure_drive_mounted colab_host []))"
    by code_simp
  have mounted: "outcome (ensure_drive_mounted colab_host []) = Inr ()"
    by code_simp
  have made: "Call (DriveMount ''/content/drive'') (Inr PNone)
                \<in> set (trace (ensure_drive_mounted colab_host []))"
    by code_simp
  have p: "path upload_cmd = ''/data/file.iso''"
    by (simp add: upload_cmd_def)
  from missing_path_is_rejected[OF missing] missing mounted made show ?thesis by (simp add: p)
qed

text \<open>
  \<^bold>\<open>C8.\<close> The claim promises exit code 1 and a log record for any other exception
  that escapes a handler. \<open>main\<close> catches KeyboardInterrupt and \<open>Exception\<close>; a
  SystemExit raised under a handler is an instance of neither and leaves \<open>main\<close> with
  nothing logged.
\<close>

theorem system_exit_leaves_main:
  "outcome (handle_clear exiting_clear_host clear_cmd []) = Inl SystemExit
   \<and> outcome (main exiting_clear_host clear_cmd []) = Inl SystemExit
   \<and> trace (main exiting_clear_host clear_cmd []) = [Call ClearSession (Inl SystemExit)]"
  by code_simp

text \<open>
  \<^bold>\<open>C8, amended.\<close> For every command that reaches the dispatcher: a keyboard
  interrupt raised by any call made during the handler leaves the handler; an interrupt
  that leaves the handler gives exit code 130, and \<open>main\<close> adds the cancellation notice
  and nothing else to the run (no record with a traceback); an instance of
  \<open>Exception\<close> that leaves the handler gives exit code 1 and one error record with the
  traceback; any other exception leaves \<open>main\<close> as it left the handler.
\<close>

theorem main_maps_interruptions:
  assumes "command a = Some c" and "c \<noteq> []"
  shows "(\<forall>x. Call x (Inl KeyboardInterrupt) \<in> set (trace (dispatch env a c w)) \<longrightarrow>
            outcome (dispatch env a c w) = Inl KeyboardInterrupt)
       \<and> (outcome (dispatch env a c w) = Inl KeyboardInterrupt \<longrightarrow>
            outcome (main env a w) = Inr 130
          \<and> trace (main env a w) =
              trace (dispatch env a c w) @ [Print (newline @ ''Operation cancelled by user'')])
       \<and> (\<forall>e. outcome (dispatch env a c w) = Inl e \<and> is_Exception e \<longrightarrow>
            outcome (main env a w) = Inr 1
          \<and> trace (main env a w) =
              trace (dispatch env a c w) @ [LogErrorExcInfo (''Operation failed: '' @ exc_str e)])
       \<and> (\<forall>e. outcome (dispatch env a c w) = Inl e \<and> \<not> is_Exception e
              \<and> e \<noteq> KeyboardInterrupt \<longrightarrow>
            outcome (main env a w) = Inl e \<and> trace (main env a w) = trace (dispatch env a c w))"
  using dispatch_no_swallow[of _ KeyboardInterrupt env a c w]
  by (auto simp: main_run[OF assms])

theorem main_maps_interruptions_witness:
  "outcome (main interrupted_download_host download_cmd []) = Inr 130
   \<and> last (trace (main interrupted_download_host download_cmd [])) =
       Print (newline @ ''Operation cancelled by user'')"
proof -
  have cmd: "command download_cmd = Some ''download''" "''download'' \<noteq> []"
    by (simp_all add: download_cmd_def)
  have call: "Call (DownloadTorrent ''magnet:?xt=abc'' ''/tmp/out'' True) (Inl KeyboardInterrupt)
      \<in> set (trace (dispatch interrupted_download_host download_cmd ''download'' []))"
    by code_simp
  from main_maps_interruptions[OF cmd, of interrupted_download_host "[]"] call show ?thesis by auto
qed




text \<open>
  \<^bold>\<open>C10.\<close> In both handlers, when the upload collaborator has been called and has
  returned a mapping with no \<open>'failed'\<close> key, or with a falsy value under it (None, an
  empty list, False, 0, an empty string), the handler returns 0 and its last record is
  the success message: \<open>results.get('failed')\<close> gives None for a missing key.
\<close>

theorem missing_failed_entry_is_success:
  assumes "h = handle_download env a \<or> h = handle_upload env a"
    and "Call (UploadToGoogleDrive p f s) (Inr (PDict kvs)) \<in> set (trace (h w))"
    and "case map_of kvs (PStr ''failed'') of None \<Rightarrow> True | Some v \<Rightarrow> \<not> truthy v"
  shows "outcome (h w) = Inr 0
       \<and> last (trace (h w)) = LogInfo ''Upload completed successfully!''"
proof -
  from handler_reach[OF assms(1,2)] obtain pre p' f' sk w1 where
    r: "Call (UploadToGoogleDrive p f s) (Inr (PDict kvs)) \<in> set (trace (try_upload env p' f' sk w1))"
       "outcome (h w) = outcome (try_upload env p' f' sk w1)"
       "trace (h w) = pre @ trace (try_upload env p' f' sk w1)"
    by auto
  from try_upload_no_failed[OF r(1) assms(3)] show ?thesis
    using r by (simp add: last_reached)
qed

theorem missing_failed_entry_is_success_witness:
  "outcome (handle_upload bare_result_host upload_cmd [''/data/file.iso'']) = Inr 0
   \<and> last (trace (handle_upload bare_result_host upload_cmd [''/data/file.iso''])) =
       LogInfo ''Upload completed successfully!''"
proof -
  have call: "Call (UploadToGoogleDrive (PStr ''/data/file.iso'') (PStr ''abc123'') True)
      (Inr (PDict [(PStr ''uploaded'', PList [PStr ''/data/file.iso''])]))
     \<in> set (trace (handle_upload bare_result_host upload_cmd [''/data/file.iso'']))"
    by code_simp
  have absent: "case map_of [(PStr ''uploaded'', PList [PStr ''/data/file.iso''])] (PStr ''failed'') of
                  None \<Rightarrow> True | Some v \<Rightarrow> \<not> truthy v"
    by simp
  from missing_failed_entry_is_success[of "handle_upload bare_result_host upload_cmd" bare_result_host upload_cmd,
           OF _ call absent]
  show ?thesis by simp
qed

end
